theory Spec2Isabelle
  imports Main
begin

section \<open>JavaScript values used by the cipher\<close>

text \<open>
  The cipher of \<^verbatim>\<open>src/index.js\<close> is a constructor \<^verbatim>\<open>Vigenere(options)\<close> whose
  closures \<^verbatim>\<open>encode\<close> and \<^verbatim>\<open>decode\<close> read the options record and the table
  \<^verbatim>\<open>characterTypes\<close>. A JavaScript string is modelled as a \<^typ>\<open>string\<close>, one
  \<^typ>\<open>char\<close> for each code unit; \<^verbatim>\<open>undefined\<close> for an omitted string argument or an
  absent string field is \<^term>\<open>None\<close>.

  The field \<^verbatim>\<open>options.characters\<close> is documented as a string, and the test file passes
  it absent, \<^verbatim>\<open>null\<close>, empty and as an array of strings, so it ranges over the
  values below.
\<close>

datatype jsval = JUndefined | JNull | JStr string | JArr "string list"

text \<open>JavaScript truthiness, as \<^verbatim>\<open>!v\<close> and \<^verbatim>\<open>Boolean(v)\<close> read it.\<close>

fun truthy :: "jsval \<Rightarrow> bool" where
  "truthy JUndefined = False"
| "truthy JNull = False"
| "truthy (JStr s) = (s \<noteq> [])"
| "truthy (JArr xs) = True"

text \<open>A string that may be \<^verbatim>\<open>undefined\<close>: falsy when undefined or empty.\<close>

fun truthyStr :: "string option \<Rightarrow> bool" where
  "truthyStr None = False"
| "truthyStr (Some s) = (s \<noteq> [])"

text \<open>\<^verbatim>\<open>Boolean(options.strict)\<close> on a boolean that may be \<^verbatim>\<open>undefined\<close>.\<close>

fun Boolean :: "bool option \<Rightarrow> bool" where
  "Boolean None = False"
| "Boolean (Some b) = b"

text \<open>\<^verbatim>\<open>Array.prototype.join\<close> on an array of strings.\<close>

fun join :: "string \<Rightarrow> string list \<Rightarrow> string" where
  "join sep [] = []"
| "join sep [x] = x"
| "join sep (x # y # ys) = x @ sep @ join sep (y # ys)"

text \<open>The string a template literal \<^verbatim>\<open>${v}\<close> inserts.\<close>

fun toStr :: "jsval \<Rightarrow> string" where
  "toStr JUndefined = ''undefined''"
| "toStr JNull = ''null''"
| "toStr (JStr s) = s"
| "toStr (JArr xs) = join '','' xs"

text \<open>
  Reading a property \<^verbatim>\<open>obj[key]\<close> of an object literal gives the value of an own
  property, a member inherited from \<^verbatim>\<open>Object.prototype\<close> when the key names one (a
  function or an object: truthy, and without an \<^verbatim>\<open>indexOf\<close> method), and
  \<^verbatim>\<open>undefined\<close> otherwise. An object literal is an association list in insertion
  order, which is the order \<^verbatim>\<open>Object.keys\<close> reports.
\<close>

datatype slot = Value jsval | Inherited

definition objectPrototypeKeys :: "string list" where
  "objectPrototypeKeys =
     [''constructor'', ''hasOwnProperty'', ''isPrototypeOf'', ''propertyIsEnumerable'',
      ''toLocaleString'', ''toString'', ''valueOf'', ''__proto__'',
      ''__defineGetter__'', ''__defineSetter__'', ''__lookupGetter__'', ''__lookupSetter__'']"

definition getProp :: "(string \<times> jsval) list \<Rightarrow> string \<Rightarrow> slot" where
  "getProp obj key =
     (case map_of obj key of
        Some v \<Rightarrow> Value v
      | None \<Rightarrow> if key \<in> set objectPrototypeKeys then Inherited else Value JUndefined)"

fun truthySlot :: "slot \<Rightarrow> bool" where
  "truthySlot (Value v) = truthy v"
| "truthySlot Inherited = True"

text \<open>The property key that a string which may be \<^verbatim>\<open>undefined\<close> converts to.\<close>

fun propKey :: "string option \<Rightarrow> string" where
  "propKey None = ''undefined''"
| "propKey (Some s) = s"

text \<open>
  \<^verbatim>\<open>indexOf\<close> of a string (searching one code unit) and of an array (strict equality):
  the first index holding the element, or \<open>-1\<close>.
\<close>

fun listIndexOf :: "'a list \<Rightarrow> 'a \<Rightarrow> int" where
  "listIndexOf [] c = -1"
| "listIndexOf (x # xs) c =
     (if x = c then 0 else (let r = listIndexOf xs c in if r = -1 then -1 else r + 1))"

text \<open>
  \<^verbatim>\<open>charMap.indexOf(character)\<close>: \<^term>\<open>None\<close> is the TypeError the engine raises when
  the receiver is \<^verbatim>\<open>undefined\<close>, \<^verbatim>\<open>null\<close> or has no such method.
\<close>

fun indexOf :: "slot \<Rightarrow> char \<Rightarrow> int option" where
  "indexOf (Value (JStr s)) c = Some (listIndexOf s c)"
| "indexOf (Value (JArr xs)) c = Some (listIndexOf xs [c])"
| "indexOf (Value JUndefined) c = None"
| "indexOf (Value JNull) c = None"
| "indexOf Inherited c = None"

text \<open>
  \<^verbatim>\<open>charMap.length\<close> and \<^verbatim>\<open>charMap[n]\<close>. The source reads them only after
  \<^verbatim>\<open>charMap.indexOf\<close> has returned, that is on a string or an array; the other
  equations make the functions total and are never reached from \<^verbatim>\<open>encryptOrDecrypt\<close>.
\<close>

fun lengthOf :: "slot \<Rightarrow> int" where
  "lengthOf (Value (JStr s)) = int (length s)"
| "lengthOf (Value (JArr xs)) = int (length xs)"
| "lengthOf (Value JUndefined) = 0"
| "lengthOf (Value JNull) = 0"
| "lengthOf Inherited = 0"

text \<open>
  The remainder operator \<^verbatim>\<open>a % b\<close> on integers: the sign of the dividend, and
  \<^verbatim>\<open>NaN\<close> (here \<^term>\<open>None\<close>) for a zero divisor.
\<close>

definition jsRem :: "int \<Rightarrow> int \<Rightarrow> int option" where
  "jsRem a b = (if b = 0 then None else Some (sgn a * (\<bar>a\<bar> mod \<bar>b\<bar>)))"

text \<open>
  \<^verbatim>\<open>value += charMap[n]\<close>: the string appended. An index out of range or \<^verbatim>\<open>NaN\<close>
  reads \<^verbatim>\<open>undefined\<close>, which \<^verbatim>\<open>+=\<close> appends as the text \<^verbatim>\<open>undefined\<close>.
\<close>

fun elemAt :: "slot \<Rightarrow> int option \<Rightarrow> string" where
  "elemAt (Value (JStr s)) (Some n) =
     (if 0 \<le> n \<and> n < int (length s) then [s ! nat n] else ''undefined'')"
| "elemAt (Value (JArr xs)) (Some n) =
     (if 0 \<le> n \<and> n < int (length xs) then xs ! nat n else ''undefined'')"
| "elemAt charMap n = ''undefined''"

section \<open>Construction\<close>

record options =
  opt_type :: "string option"
  opt_strict :: "bool option"
  opt_characters :: jsval
  opt_secret :: "string option"

text \<open>
  Every error the source throws is a \<^verbatim>\<open>TypeError\<close> with a message.
  \<^term>\<open>EngineTypeError\<close> is the TypeError the JavaScript engine itself raises (calling a
  method that does not exist, reading a property of \<^verbatim>\<open>undefined\<close>); its message is
  the engine's.
\<close>

datatype error = TypeError string | EngineTypeError

text \<open>What the closures capture: the table and the options record.\<close>

record engine =
  eng_characterTypes :: "(string \<times> jsval) list"
  eng_options :: options

definition symbols :: string where
  "symbols = ''!@#$%^&*()_+-=[]{}|;'' @ [CHR 0x27] @ '':'' @ [CHR 0x22] @ '',./<>?''"

definition characterTypes :: "options \<Rightarrow> (string \<times> jsval) list" where
  "characterTypes options0 =
     [(''alphanumeric'', JStr ''abcdefghijklmnopqrstuvwxyzABCDEFGHIJKLMNOPQRSTUVWXYZ0123456789''),
      (''numbers'', JStr ''0123456789''),
      (''lowercase'', JStr ''abcdefghijklmnopqrstuvwxyz''),
      (''uppercase'', JStr ''ABCDEFGHIJKLMNOPQRSTUVWXYZ''),
      (''symbols'', JStr symbols),
      (''ascii'', JStr (''abcdefghijklmnopqrstuvwxyzABCDEFGHIJKLMNOPQRSTUVWXYZ0123456789''
                        @ symbols @ '' '')),
      (''base64'', JStr ''ABCDEFGHIJKLMNOPQRSTUVWXYZabcdefghijklmnopqrstuvwxyz0123456789+/=''),
      (''custom'', opt_characters options0)]"

text \<open>\<^verbatim>\<open>options.characters.length\<close>, read only when \<^verbatim>\<open>options.characters\<close> is truthy.\<close>

definition charactersLength :: "jsval \<Rightarrow> int" where
  "charactersLength v = lengthOf (Value v)"

text \<open>
  \<^verbatim>\<open>new Vigenere(options)\<close>. The constructor writes to the caller's record before it
  checks anything, so the record comes back in both outcomes. The local object
  \<^verbatim>\<open>secret\<close> that it fills from \<^verbatim>\<open>options.secret\<close> is read nowhere, so it is no part
  of the engine.
\<close>

definition Vigenere :: "options \<Rightarrow> options \<times> (error + engine)" where
  "Vigenere options0 =
     (let table = characterTypes options0;
          options1 = options0\<lparr>opt_strict := Some (Boolean (opt_strict options0))\<rparr>;
          options2 = (if \<not> truthyStr (opt_type options1)
                      then options1\<lparr>opt_type := Some ''base64''\<rparr> else options1)
      in if \<not> truthySlot (getProp table (propKey (opt_type options2)))
         then (options2, Inl (TypeError (''Invalid character type. Available options are: ''
                                          @ join '', '' (map fst table) @ '';'')))
         else if opt_type options2 = Some ''custom'' \<and> \<not> truthy (opt_characters options2)
         then (options2,
               Inl (TypeError ''Characters must be specified when using custom character type.''))
         else if opt_type options2 = Some ''custom''
                 \<and> charactersLength (opt_characters options2) = 0
         then (options2, Inl (TypeError ''Custom characters must be a non-empty string.''))
         else (options2, Inr \<lparr>eng_characterTypes = table, eng_options = options2\<rparr>))"

section \<open>Validation and the transform\<close>

definition charMapOf :: "engine \<Rightarrow> slot" where
  "charMapOf eng = getProp (eng_characterTypes eng) (propKey (opt_type (eng_options eng)))"

definition quoted :: "string \<Rightarrow> string" where
  "quoted s = [CHR 0x27] @ s @ [CHR 0x27]"

text \<open>
  The text \<^verbatim>\<open>${characterTypes[options.type]}\<close> of the two error messages. It is built
  only after \<^verbatim>\<open>indexOf\<close> returned \<open>-1\<close>, that is for a string or an array; the
  equation for an inherited member is never reached.
\<close>

fun slotToStr :: "slot \<Rightarrow> string" where
  "slotToStr (Value v) = toStr v"
| "slotToStr Inherited = ''''"

definition secretCharacterError :: "slot \<Rightarrow> char \<Rightarrow> error" where
  "secretCharacterError charMap character =
     TypeError (''Secret characters must contains only values from '' @ quoted (slotToStr charMap)
                @ ''. ['' @ quoted [character] @ ''] not allowed!'')"

definition messageCharacterError :: "slot \<Rightarrow> char \<Rightarrow> error" where
  "messageCharacterError charMap character =
     TypeError (''Message characters must contains only values from '' @ quoted (slotToStr charMap)
                @ ''. ['' @ quoted [character] @ ''] not allowed in strict mode!'')"

text \<open>
  \<^verbatim>\<open>s.split('').every(callback)\<close>: the callback throws at the first character whose
  \<^verbatim>\<open>indexOf\<close> is \<open>-1\<close> and returns true otherwise, so the walk is left to right and
  stops at the first throw.
\<close>

fun everyCharacter :: "(char \<Rightarrow> error) \<Rightarrow> slot \<Rightarrow> string \<Rightarrow> error + unit" where
  "everyCharacter err charMap [] = Inr ()"
| "everyCharacter err charMap (character # rest) =
     (case indexOf charMap character of
        None \<Rightarrow> Inl EngineTypeError
      | Some k \<Rightarrow> if k = -1 then Inl (err character) else everyCharacter err charMap rest)"

definition verifySecret :: "engine \<Rightarrow> string option \<Rightarrow> error + unit" where
  "verifySecret eng secret =
     (case secret of
        None \<Rightarrow> Inl (TypeError ''Secret must be specified.'')
      | Some s \<Rightarrow>
          if s = [] then Inl (TypeError ''Secret must be specified.'')
          else if length s = 0 then Inl (TypeError ''Secret must be a non-empty string.'')
          else everyCharacter (secretCharacterError (charMapOf eng)) (charMapOf eng) s)"

definition verifyMessage :: "engine \<Rightarrow> string option \<Rightarrow> bool option \<Rightarrow> error + unit" where
  "verifyMessage eng message strict =
     (case message of
        None \<Rightarrow> Inl (TypeError ''Message must be specified.'')
      | Some m \<Rightarrow>
          if m = [] then Inl (TypeError ''Message must be specified.'')
          else if length m = 0 then Inl (TypeError ''Message must be a non-empty string.'')
          else if \<not> Boolean strict then Inr ()
          else everyCharacter (messageCharacterError (charMapOf eng)) (charMapOf eng) m)"

datatype operation = Encrypt | Decrypt

text \<open>
  The \<^verbatim>\<open>for\<close> loop of \<^verbatim>\<open>encryptOrDecrypt\<close>, with the counter \<open>i\<close> and the
  accumulated \<^verbatim>\<open>encryptedMessage.value\<close>. It runs after \<^verbatim>\<open>verifySecret\<close>, so
  \<open>secret\<close> is not empty when \<^verbatim>\<open>secret[i % secret.length]\<close> is read.
\<close>

function loop :: "slot \<Rightarrow> string \<Rightarrow> string \<Rightarrow> operation \<Rightarrow> nat \<Rightarrow> string \<Rightarrow> error + string" where
  "loop charMap message secret operation i acc =
     (if i < length message then
        (let messageLetter = message ! i in
         case indexOf charMap messageLetter of
           None \<Rightarrow> Inl EngineTypeError
         | Some y \<Rightarrow>
             if y = -1 then loop charMap message secret operation (i + 1) (acc @ [messageLetter])
             else
               (let secretLetter = secret ! (i mod length secret) in
                case indexOf charMap secretLetter of
                  None \<Rightarrow> Inl EngineTypeError
                | Some x \<Rightarrow>
                    if operation = Encrypt
                    then loop charMap message secret operation (i + 1)
                           (acc @ elemAt charMap (jsRem (x + y) (lengthOf charMap)))
                    else loop charMap message secret operation (i + 1)
                           (acc @ elemAt charMap
                                   (jsRem (y - x + lengthOf charMap) (lengthOf charMap)))))
      else Inr acc)"
  by pat_completeness auto
termination
  by (relation "measure (\<lambda>(charMap, message, secret, operation, i, acc). length message - i)") auto

declare loop.simps [simp del]

text \<open>
  \<^verbatim>\<open>encryptOrDecrypt\<close>: the secret is verified first, then the message, then the loop
  runs. When both checks pass, message and secret are strings.
\<close>

definition encryptOrDecrypt :: "engine \<Rightarrow> string option \<Rightarrow> string option \<Rightarrow> operation \<Rightarrow> error + string" where
  "encryptOrDecrypt eng message secret operation =
     (case verifySecret eng secret of
        Inl e \<Rightarrow> Inl e
      | Inr _ \<Rightarrow>
          (case verifyMessage eng message (opt_strict (eng_options eng)) of
             Inl e \<Rightarrow> Inl e
           | Inr _ \<Rightarrow>
               (case (message, secret) of
                  (Some m, Some s) \<Rightarrow> loop (charMapOf eng) m s operation 0 []
                | _ \<Rightarrow> Inl EngineTypeError)))"

text \<open>
  \<^verbatim>\<open>encode(message, secret = options.secret)\<close> and \<^verbatim>\<open>decode\<close>: an omitted secret
  takes the default from the options record.
\<close>

definition defaultSecret :: "engine \<Rightarrow> string option \<Rightarrow> string option" where
  "defaultSecret eng secret =
     (case secret of None \<Rightarrow> opt_secret (eng_options eng) | Some s \<Rightarrow> Some s)"

definition encode :: "engine \<Rightarrow> string option \<Rightarrow> string option \<Rightarrow> error + string" where
  "encode eng message secret = encryptOrDecrypt eng message (defaultSecret eng secret) Encrypt"

definition decode :: "engine \<Rightarrow> string option \<Rightarrow> string option \<Rightarrow> error + string" where
  "decode eng message secret = encryptOrDecrypt eng message (defaultSecret eng secret) Decrypt"

section \<open>The constructor kept in the test file\<close>

text \<open>
  \<^verbatim>\<open>src/index.spec.js\<close> holds, after its tests, a second copy of the constructor
  (\<^verbatim>\<open>module.exports = function Vigenere\<close>). Its table has another key order and a
  fixed text under \<^verbatim>\<open>custom\<close>, its first error has another wording, it tests
  \<^verbatim>\<open>typeof options.characters\<close> where \<^verbatim>\<open>src/index.js\<close> reads the length, and its
  \<^verbatim>\<open>verifySecret\<close> has one more check. \<^verbatim>\<open>verifyMessage\<close> and the loop are the same
  text as in \<^verbatim>\<open>src/index.js\<close>.
\<close>

definition characterTypes_spec_js :: "(string \<times> jsval) list" where
  "characterTypes_spec_js =
     [(''numbers'', JStr ''0123456789''),
      (''custom'', JStr ''CUSTOM_TYPE''),
      (''lowercase'', JStr ''abcdefghijklmnopqrstuvwxyz''),
      (''uppercase'', JStr ''ABCDEFGHIJKLMNOPQRSTUVWXYZ''),
      (''symbols'', JStr symbols),
      (''base64'', JStr ''ABCDEFGHIJKLMNOPQRSTUVWXYZabcdefghijklmnopqrstuvwxyz0123456789+/=''),
      (''alphanumeric'', JStr ''abcdefghijklmnopqrstuvwxyzABCDEFGHIJKLMNOPQRSTUVWXYZ0123456789''),
      (''ascii'', JStr (''abcdefghijklmnopqrstuvwxyzABCDEFGHIJKLMNOPQRSTUVWXYZ0123456789''
                        @ symbols @ '' ''))]"

fun typeof :: "jsval \<Rightarrow> string" where
  "typeof JUndefined = ''undefined''"
| "typeof JNull = ''object''"
| "typeof (JStr s) = ''string''"
| "typeof (JArr xs) = ''object''"

definition Vigenere_spec_js :: "options \<Rightarrow> options \<times> (error + engine)" where
  "Vigenere_spec_js options0 =
     (let table = characterTypes_spec_js;
          options1 = options0\<lparr>opt_strict := Some (Boolean (opt_strict options0))\<rparr>;
          options2 = (if \<not> truthyStr (opt_type options1)
                      then options1\<lparr>opt_type := Some ''base64''\<rparr> else options1)
      in if \<not> truthySlot (getProp table (propKey (opt_type options2)))
         then (options2, Inl (TypeError (''Invalid type provided. Available options are: ''
                                          @ join '', '' (map fst table) @ '';'')))
         else if opt_type options2 = Some ''custom'' \<and> \<not> truthy (opt_characters options2)
         then (options2,
               Inl (TypeError ''Characters must be specified when using custom character type.''))
         else if opt_type options2 = Some ''custom''
                 \<and> typeof (opt_characters options2) \<noteq> ''string''
         then (options2, Inl (TypeError ''Custom characters must be a non-empty string.''))
         else
           (let options3 = (if opt_type options2 = Some ''custom''
                            then options2\<lparr>opt_characters := JStr (toStr (opt_characters options2))\<rparr>
                            else options2)
            in (options3, Inr \<lparr>eng_characterTypes = table, eng_options = options3\<rparr>)))"

text \<open>
  In this copy the parameter \<^verbatim>\<open>secret\<close> of \<^verbatim>\<open>verifySecret\<close> hides the outer object
  of that name, so \<^verbatim>\<open>secret.value\<close> is a property read on a string, which is
  \<^verbatim>\<open>undefined\<close>.
\<close>

definition valueOfString :: "string \<Rightarrow> jsval" where
  "valueOfString s = JUndefined"

definition verifySecret_spec_js :: "engine \<Rightarrow> string option \<Rightarrow> error + unit" where
  "verifySecret_spec_js eng secret =
     (case secret of
        None \<Rightarrow> Inl (TypeError ''Secret must be specified.'')
      | Some s \<Rightarrow>
          if s = [] then Inl (TypeError ''Secret must be specified.'')
          else if length s = 0 then Inl (TypeError ''Secret must be a non-empty string.'')
          else if typeof (valueOfString s) \<noteq> ''string''
          then Inl (TypeError ''Secret key characters must be string type.'')
          else everyCharacter (secretCharacterError (charMapOf eng)) (charMapOf eng) s)"

definition encryptOrDecrypt_spec_js :: "engine \<Rightarrow> string option \<Rightarrow> string option \<Rightarrow> operation \<Rightarrow> error + string" where
  "encryptOrDecrypt_spec_js eng message secret operation =
     (case verifySecret_spec_js eng secret of
        Inl e \<Rightarrow> Inl e
      | Inr _ \<Rightarrow>
          (case verifyMessage eng message (opt_strict (eng_options eng)) of
             Inl e \<Rightarrow> Inl e
           | Inr _ \<Rightarrow>
               (case (message, secret) of
                  (Some m, Some s) \<Rightarrow> loop (charMapOf eng) m s operation 0 []
                | _ \<Rightarrow> Inl EngineTypeError)))"

section \<open>The specification's wording of the transform\<close>

text \<open>
  The index of the first occurrence of a symbol in the universe, as the specification
  names it, and the symbol the specification's algorithm (steps 1 to 4 of its transform
  function) emits at message position \<open>i\<close>. Both are compared with the source below.
\<close>

definition first_occurrence :: "'a list \<Rightarrow> 'a \<Rightarrow> nat \<Rightarrow> bool" where
  "first_occurrence u c x \<longleftrightarrow> x < length u \<and> u ! x = c \<and> c \<notin> set (take x u)"

definition spec_transform_at :: "string \<Rightarrow> string \<Rightarrow> operation \<Rightarrow> string \<Rightarrow> nat \<Rightarrow> char" where
  "spec_transform_at universe secret direction message i =
     (let m = message ! i in
      if m \<notin> set universe then m
      else (let k = secret ! (i mod length secret);
                x = listIndexOf universe k;
                y = listIndexOf universe m;
                L = int (length universe)
            in if direction = Encrypt then universe ! nat ((x + y) mod L)
               else universe ! nat ((y - x + L) mod L)))"

section \<open>Configurations of the tests and of the specification's scenarios\<close>

definition lowercase :: string where
  "lowercase = ''abcdefghijklmnopqrstuvwxyz''"

definition typedOptions :: "string \<Rightarrow> bool option \<Rightarrow> jsval \<Rightarrow> options" where
  "typedOptions kind strict characters =
     \<lparr>opt_type = Some kind, opt_strict = strict, opt_characters = characters, opt_secret = None\<rparr>"

text \<open>The engine \<^verbatim>\<open>new Vigenere(options)\<close> returns when none of its checks throws.\<close>

definition engineOf :: "options \<Rightarrow> engine" where
  "engineOf options0 =
     \<lparr>eng_characterTypes = characterTypes options0,
      eng_options =
        options0\<lparr>opt_strict := Some (Boolean (opt_strict options0)),
                 opt_type := (if truthyStr (opt_type options0) then opt_type options0
                              else Some ''base64'')\<rparr>\<rparr>"

definition invalidTypeMessage :: string where
  "invalidTypeMessage =
     ''Invalid character type. Available options are: ''
     @ ''alphanumeric, numbers, lowercase, uppercase, symbols, ascii, base64, custom;''"

definition invalidTypeMessage_expected :: string where
  "invalidTypeMessage_expected =
     ''Invalid type provided. Available options are: ''
     @ ''numbers, custom, lowercase, uppercase, symbols, base64, alphanumeric, ascii;''"

section \<open>The tests of the constructor\<close>

text \<open>
  The two tests of \<^verbatim>\<open>src/index.spec.js\<close>, with the constructor under test as a
  parameter. \<^verbatim>\<open>expect(f).toThrow(text)\<close> holds when \<open>f\<close> throws an error whose message
  contains \<open>text\<close>; the texts expected here are none of the engine's own.
\<close>

fun isPrefix :: "'a list \<Rightarrow> 'a list \<Rightarrow> bool" where
  "isPrefix [] ys = True"
| "isPrefix (x # xs) [] = False"
| "isPrefix (x # xs) (y # ys) = (x = y \<and> isPrefix xs ys)"

fun stringIncludes :: "'a list \<Rightarrow> 'a list \<Rightarrow> bool" where
  "stringIncludes [] needle = (needle = [])"
| "stringIncludes (h # hay) needle = (isPrefix needle (h # hay) \<or> stringIncludes hay needle)"

fun toThrow :: "error + 'a \<Rightarrow> string \<Rightarrow> bool" where
  "toThrow (Inl (TypeError msg)) expected = stringIncludes msg expected"
| "toThrow (Inl EngineTypeError) expected = False"
| "toThrow (Inr v) expected = False"

definition charactersMissingMessage :: string where
  "charactersMissingMessage = ''Characters must be specified when using custom character type.''"

definition charactersInvalidMessage :: string where
  "charactersInvalidMessage = ''Custom characters must be a non-empty string.''"

definition test_invalid_type :: "(options \<Rightarrow> options \<times> (error + engine)) \<Rightarrow> bool" where
  "test_invalid_type constructor \<longleftrightarrow>
     toThrow (snd (constructor (typedOptions ''invalid'' None JUndefined)))
       invalidTypeMessage_expected"

definition test_custom_characters :: "(options \<Rightarrow> options \<times> (error + engine)) \<Rightarrow> bool" where
  "test_custom_characters constructor \<longleftrightarrow>
     toThrow (snd (constructor (typedOptions ''custom'' None JUndefined)))
       charactersMissingMessage
     \<and> toThrow (snd (constructor (typedOptions ''custom'' None (JStr []))))
         charactersMissingMessage
     \<and> toThrow (snd (constructor (typedOptions ''custom'' None JNull)))
         charactersMissingMessage
     \<and> toThrow (snd (constructor (typedOptions ''custom'' None (JArr [''abc'']))))
         charactersInvalidMessage"

section \<open>Facts about the index search\<close>

lemma listIndexOf_ge: "- 1 \<le> listIndexOf xs c"
  by (induction xs) (auto simp: Let_def)

lemma listIndexOf_notin: "c \<notin> set xs \<Longrightarrow> listIndexOf xs c = - 1"
  by (induction xs) (auto simp: Let_def)

lemma listIndexOf_in_nonneg: "c \<in> set xs \<Longrightarrow> 0 \<le> listIndexOf xs c"
proof (induction xs)
  case Nil
  then show ?case by simp
next
  case (Cons x xs)
  then show ?case using listIndexOf_ge [of xs c] by (auto simp: Let_def)
qed

lemma listIndexOf_absent_iff: "listIndexOf xs c = - 1 \<longleftrightarrow> c \<notin> set xs"
  using listIndexOf_in_nonneg [of c xs] listIndexOf_notin [of c xs] by auto

lemma listIndexOf_less: "listIndexOf xs c < int (length xs)"
  by (induction xs) (auto simp: Let_def)

lemma listIndexOf_nth: "c \<in> set xs \<Longrightarrow> xs ! nat (listIndexOf xs c) = c"
proof (induction xs)
  case Nil
  then show ?case by simp
next
  case (Cons x xs)
  show ?case
  proof (cases "x = c")
    case True
    then show ?thesis by simp
  next
    case False
    with Cons.prems have in_tl: "c \<in> set xs" by simp
    then have nonneg: "0 \<le> listIndexOf xs c" by (rule listIndexOf_in_nonneg)
    then have "nat (listIndexOf xs c + 1) = Suc (nat (listIndexOf xs c))" by simp
    with False nonneg Cons.IH [OF in_tl] show ?thesis by (simp add: Let_def)
  qed
qed

lemma listIndexOf_first: "j < nat (listIndexOf xs c) \<Longrightarrow> xs ! j \<noteq> c"
proof (induction xs arbitrary: j)
  case Nil
  then show ?case by simp
next
  case (Cons x xs)
  show ?case
  proof (cases "x = c")
    case True
    with Cons.prems show ?thesis by simp
  next
    case False
    show ?thesis
    proof (cases j)
      case 0
      with False show ?thesis by simp
    next
      case (Suc k)
      with Cons.prems False have "k < nat (listIndexOf xs c)"
        by (auto simp: Let_def split: if_splits)
      with Cons.IH Suc show ?thesis by simp
    qed
  qed
qed

text \<open>The search of the source finds the specification's first-occurrence index.\<close>

lemma first_occurrence_listIndexOf:
  assumes "first_occurrence u c x"
  shows "listIndexOf u c = int x"
proof -
  from assms have x: "x < length u" "u ! x = c" and notin: "c \<notin> set (take x u)"
    by (auto simp: first_occurrence_def)
  have least: "u ! j \<noteq> c" if "j < x" for j
  proof
    assume "u ! j = c"
    with that x(1) have "c \<in> set (take x u)"
      by (auto simp: in_set_conv_nth intro!: exI [of _ j])
    with notin show False by simp
  qed
  from x have mem: "c \<in> set u" by auto
  let ?k = "nat (listIndexOf u c)"
  have "\<not> x < ?k" using listIndexOf_first [of x u c] x by auto
  moreover have "\<not> ?k < x" using least [of ?k] listIndexOf_nth [OF mem] by auto
  ultimately have "?k = x" by simp
  with listIndexOf_in_nonneg [OF mem] show ?thesis by simp
qed

lemma listIndexOf_first_occurrence:
  assumes "c \<in> set u"
  shows "first_occurrence u c (nat (listIndexOf u c))"
proof -
  let ?k = "nat (listIndexOf u c)"
  have k: "?k < length u"
    using listIndexOf_less [of u c] listIndexOf_in_nonneg [OF assms] by simp
  have "c \<notin> set (take ?k u)"
  proof
    assume "c \<in> set (take ?k u)"
    then obtain j where "j < ?k" "u ! j = c"
      by (auto simp: in_set_conv_nth)
    with listIndexOf_first [of j u c] show False by simp
  qed
  with k listIndexOf_nth [OF assms] show ?thesis by (simp add: first_occurrence_def)
qed

lemma listIndexOf_distinct:
  assumes "distinct xs" "i < length xs"
  shows "listIndexOf xs (xs ! i) = int i"
proof (rule first_occurrence_listIndexOf)
  have "xs ! i \<notin> set (take i xs)"
  proof
    assume "xs ! i \<in> set (take i xs)"
    then obtain j where j: "j < i" "xs ! j = xs ! i"
      using assms(2) by (auto simp: in_set_conv_nth)
    with assms have "j = i" by (simp add: nth_eq_iff_index_eq)
    with j(1) show False by simp
  qed
  with assms(2) show "first_occurrence xs (xs ! i) i" by (simp add: first_occurrence_def)
qed

lemma jsRem_nonneg: "0 \<le> a \<Longrightarrow> 0 < b \<Longrightarrow> jsRem a b = Some (a mod b)"
  by (cases "a = 0") (simp_all add: jsRem_def)

section \<open>Validation over a string universe\<close>

lemma everyCharacter_string_first:
  "set pre \<subseteq> set u \<Longrightarrow> c \<notin> set u \<Longrightarrow>
   everyCharacter err (Value (JStr u)) (pre @ c # post) = Inl (err c)"
  by (induction pre) (auto simp: listIndexOf_absent_iff)

lemma everyCharacter_string_iff:
  "everyCharacter err (Value (JStr u)) s = Inr () \<longleftrightarrow> set s \<subseteq> set u"
  by (induction s) (auto simp: listIndexOf_absent_iff)

lemma verifySecret_string_iff:
  assumes "charMapOf eng = Value (JStr u)"
  shows "verifySecret eng secret = Inr () \<longleftrightarrow>
         (\<exists>s. secret = Some s \<and> s \<noteq> [] \<and> set s \<subseteq> set u)"
  using assms by (auto simp: verifySecret_def everyCharacter_string_iff split: option.splits)

lemma verifyMessage_string_iff:
  assumes "charMapOf eng = Value (JStr u)"
  shows "verifyMessage eng message strict = Inr () \<longleftrightarrow>
         (\<exists>m. message = Some m \<and> m \<noteq> [] \<and> (Boolean strict \<longrightarrow> set m \<subseteq> set u))"
  using assms by (auto simp: verifyMessage_def everyCharacter_string_iff split: option.splits)

section \<open>The loop over a string universe\<close>

lemma elemAt_string_mod:
  assumes "0 \<le> a" "u \<noteq> []"
  shows "elemAt (Value (JStr u)) (jsRem a (lengthOf (Value (JStr u))))
         = [u ! nat (a mod int (length u))]"
proof -
  from assms(2) have pos: "0 < int (length u)" by simp
  with assms(1) have "jsRem a (int (length u)) = Some (a mod int (length u))"
    by (rule jsRem_nonneg)
  moreover from pos have "0 \<le> a mod int (length u)" "a mod int (length u) < int (length u)"
    by simp_all
  ultimately show ?thesis by simp
qed

lemma loop_step_unknown:
  assumes "i < length message" "message ! i \<notin> set u"
  shows "loop (Value (JStr u)) message secret operation i acc
         = loop (Value (JStr u)) message secret operation (Suc i) (acc @ [message ! i])"
  using assms by (subst loop.simps) (simp add: listIndexOf_notin)

lemma loop_step_known:
  assumes "i < length message" "message ! i \<in> set u" "secret \<noteq> []" "set secret \<subseteq> set u"
  shows "loop (Value (JStr u)) message secret operation i acc
         = loop (Value (JStr u)) message secret operation (Suc i)
             (acc @ [spec_transform_at u secret operation message i])"
proof -
  let ?m = "message ! i" and ?k = "secret ! (i mod length secret)"
  let ?x = "listIndexOf u ?k" and ?y = "listIndexOf u ?m"
  let ?cm = "Value (JStr u)"
  from assms(3) have "i mod length secret < length secret" by simp
  with assms(4) have k_in: "?k \<in> set u" by (meson nth_mem subsetD)
  from assms(2) have ne: "u \<noteq> []" by auto
  have y0: "0 \<le> ?y" using assms(2) by (rule listIndexOf_in_nonneg)
  have x0: "0 \<le> ?x" using k_in by (rule listIndexOf_in_nonneg)
  have xL: "?x < int (length u)" by (rule listIndexOf_less)
  have enc: "elemAt ?cm (jsRem (?x + ?y) (lengthOf ?cm))
             = [u ! nat ((?x + ?y) mod int (length u))]"
    using x0 y0 ne by (intro elemAt_string_mod) simp_all
  have dec: "elemAt ?cm (jsRem (?y - ?x + lengthOf ?cm) (lengthOf ?cm))
             = [u ! nat ((?y - ?x + int (length u)) mod int (length u))]"
    using elemAt_string_mod [of "?y - ?x + int (length u)" u] xL y0 ne by simp
  have ynot: "?y \<noteq> - 1" using y0 by simp
  show ?thesis
  proof (cases operation)
    case Encrypt
    show ?thesis
      apply (subst loop.simps)
      using assms(1,2) ynot enc Encrypt
      by (simp add: spec_transform_at_def Let_def)
  next
    case Decrypt
    show ?thesis
      apply (subst loop.simps)
      using assms(1,2) ynot dec Decrypt
      by (simp add: spec_transform_at_def Let_def)
  qed
qed

text \<open>
  The loop returns, and what it appends at each position is the symbol of the
  specification's algorithm.
\<close>

lemma loop_string:
  assumes "secret \<noteq> []" "set secret \<subseteq> set u"
  shows "loop (Value (JStr u)) message secret operation i acc
         = Inr (acc @ map (spec_transform_at u secret operation message) [i..<length message])"
proof (induction "length message - i" arbitrary: i acc)
  case 0
  then have "\<not> i < length message" by simp
  then show ?case by (subst loop.simps) simp
next
  case (Suc n)
  then have lt: "i < length message" and n: "n = length message - Suc i" by simp_all
  have upt: "[i..<length message] = i # [Suc i..<length message]"
    using lt by (rule upt_conv_Cons)
  show ?case
  proof (cases "message ! i \<in> set u")
    case True
    with lt assms Suc.hyps(1) [OF n] upt show ?thesis
      by (simp add: loop_step_known)
  next
    case False
    with lt Suc.hyps(1) [OF n] upt show ?thesis
      by (simp add: loop_step_unknown spec_transform_at_def)
  qed
qed

lemma encryptOrDecrypt_string:
  assumes "charMapOf eng = Value (JStr u)"
    and "secret \<noteq> []" "set secret \<subseteq> set u"
    and "message \<noteq> []" "Boolean (opt_strict (eng_options eng)) \<longrightarrow> set message \<subseteq> set u"
  shows "encryptOrDecrypt eng (Some message) (Some secret) operation
         = Inr (map (spec_transform_at u secret operation message) [0..<length message])"
proof -
  have "verifySecret eng (Some secret) = Inr ()"
    using assms(2,3) by (simp add: verifySecret_string_iff [OF assms(1)])
  moreover have "verifyMessage eng (Some message) (opt_strict (eng_options eng)) = Inr ()"
    using assms(4,5) by (simp add: verifyMessage_string_iff [OF assms(1)])
  ultimately show ?thesis
    using assms(1-3) by (simp add: encryptOrDecrypt_def loop_string)
qed

lemma encryptOrDecrypt_string_Inr:
  assumes "charMapOf eng = Value (JStr u)"
    and "encryptOrDecrypt eng message secret operation = Inr out"
  shows "\<exists>m s. message = Some m \<and> secret = Some s \<and> s \<noteq> [] \<and> set s \<subseteq> set u \<and> m \<noteq> []
           \<and> (Boolean (opt_strict (eng_options eng)) \<longrightarrow> set m \<subseteq> set u)
           \<and> out = map (spec_transform_at u s operation m) [0..<length m]"
proof -
  from assms(2) have vs: "verifySecret eng secret = Inr ()"
    by (auto simp: encryptOrDecrypt_def split: sum.splits)
  with assms(2) have vm: "verifyMessage eng message (opt_strict (eng_options eng)) = Inr ()"
    by (auto simp: encryptOrDecrypt_def split: sum.splits)
  from vs obtain s where s: "secret = Some s" "s \<noteq> []" "set s \<subseteq> set u"
    by (auto simp: verifySecret_string_iff [OF assms(1)])
  from vm obtain m where m: "message = Some m" "m \<noteq> []"
      "Boolean (opt_strict (eng_options eng)) \<longrightarrow> set m \<subseteq> set u"
    by (auto simp: verifyMessage_string_iff [OF assms(1)])
  from encryptOrDecrypt_string [OF assms(1) s(2,3) m(2,3), of operation] assms(2) s(1) m(1)
  show ?thesis using s m by auto
qed

lemma spec_transform_at_in_universe:
  assumes "message ! i \<in> set u"
  shows "spec_transform_at u secret operation message i \<in> set u"
proof -
  from assms have "u \<noteq> []" by auto
  then have pos: "0 < int (length u)" by simp
  have "nat (a mod int (length u)) < length u" for a
    using pos by (simp add: nat_less_iff)
  then show ?thesis using assms
    by (auto simp: spec_transform_at_def Let_def)
qed

lemma unshift:
  fixes x y L :: int
  assumes "0 \<le> y" "y < L"
  shows "((x + y) mod L - x + L) mod L = y"
proof -
  have "((x + y) mod L - x + L) mod L = ((x + y) mod L - x) mod L" by simp
  also have "\<dots> = (x + y - x) mod L" by (simp add: mod_diff_left_eq)
  also have "\<dots> = y" using assms by simp
  finally show ?thesis .
qed

lemma decode_position:
  assumes "distinct u"
    and "c ! i = spec_transform_at u secret Encrypt message i"
  shows "spec_transform_at u secret Decrypt c i = message ! i"
proof (cases "message ! i \<in> set u")
  case False
  with assms(2) have "c ! i = message ! i" by (simp add: spec_transform_at_def)
  with False show ?thesis by (simp add: spec_transform_at_def)
next
  case True
  let ?L = "int (length u)"
  let ?x = "listIndexOf u (secret ! (i mod length secret))" and ?y = "listIndexOf u (message ! i)"
  from True have "u \<noteq> []" by auto
  then have pos: "0 < ?L" by simp
  have y: "0 \<le> ?y" "?y < ?L" using True by (simp_all add: listIndexOf_in_nonneg listIndexOf_less)
  let ?j = "nat ((?x + ?y) mod ?L)"
  have j: "?j < length u" using pos by (simp add: nat_less_iff)
  have ci: "c ! i = u ! ?j" using assms(2) True by (simp add: spec_transform_at_def Let_def)
  then have cin: "c ! i \<in> set u" using j by simp
  have idx: "listIndexOf u (c ! i) = (?x + ?y) mod ?L"
    using listIndexOf_distinct [OF assms(1) j] ci pos by simp
  have "spec_transform_at u secret Decrypt c i = u ! nat (((?x + ?y) mod ?L - ?x + ?L) mod ?L)"
    using cin idx by (simp add: spec_transform_at_def Let_def)
  also have "\<dots> = u ! nat ?y" using unshift [OF y] by simp
  also have "\<dots> = message ! i" using True by (rule listIndexOf_nth)
  finally show ?thesis .
qed

section \<open>Example engines\<close>

lemma Vigenere_builtin:
  assumes "kind \<in> {''alphanumeric'', ''numbers'', ''lowercase'', ''uppercase'', ''symbols'',
                     ''ascii'', ''base64''}"
  shows "Vigenere (typedOptions kind strict characters)
         = (eng_options (engineOf (typedOptions kind strict characters)),
            Inr (engineOf (typedOptions kind strict characters)))"
  using assms
  by (auto simp: Vigenere_def typedOptions_def engineOf_def characterTypes_def getProp_def
      Let_def symbols_def)

lemma charMapOf_lowercase:
  "charMapOf (engineOf (typedOptions ''lowercase'' strict characters)) = Value (JStr lowercase)"
  by (simp add: charMapOf_def typedOptions_def engineOf_def characterTypes_def getProp_def
      lowercase_def)

lemma strict_engineOf:
  "opt_strict (eng_options (engineOf (typedOptions kind strict characters)))
   = Some (Boolean strict)"
  by (simp add: typedOptions_def engineOf_def)

lemma builtin_universes_distinct:
  "distinct ''abcdefghijklmnopqrstuvwxyzABCDEFGHIJKLMNOPQRSTUVWXYZ0123456789''"
  "distinct ''0123456789''"
  "distinct ''abcdefghijklmnopqrstuvwxyz''"
  "distinct ''ABCDEFGHIJKLMNOPQRSTUVWXYZ''"
  "distinct symbols"
  "distinct (''abcdefghijklmnopqrstuvwxyzABCDEFGHIJKLMNOPQRSTUVWXYZ0123456789'' @ symbols @ '' '')"
  "distinct ''ABCDEFGHIJKLMNOPQRSTUVWXYZabcdefghijklmnopqrstuvwxyz0123456789+/=''"
  by (simp_all add: symbols_def)

section \<open>Round trip\<close>

lemma roundtrip_operations:
  assumes cm: "charMapOf eng = Value (JStr u)" and d: "distinct u"
    and s: "secret \<noteq> []" "set secret \<subseteq> set u"
    and m: "message \<noteq> []"
    and st: "Boolean (opt_strict (eng_options eng)) \<longrightarrow> set message \<subseteq> set u"
  shows "\<exists>c. encryptOrDecrypt eng (Some message) (Some secret) Encrypt = Inr c
           \<and> encryptOrDecrypt eng (Some c) (Some secret) Decrypt = Inr message"
proof -
  let ?c = "map (spec_transform_at u secret Encrypt message) [0..<length message]"
  have enc: "encryptOrDecrypt eng (Some message) (Some secret) Encrypt = Inr ?c"
    using cm s m st by (rule encryptOrDecrypt_string)
  have len: "length ?c = length message" by simp
  with m have c_ne: "?c \<noteq> []" by (metis length_0_conv)
  have c_in: "set ?c \<subseteq> set u" if "set message \<subseteq> set u"
  proof
    fix a assume "a \<in> set ?c"
    then obtain i where i: "i < length message"
        and a: "a = spec_transform_at u secret Encrypt message i"
      by auto
    from i that have "message ! i \<in> set u" by auto
    with a show "a \<in> set u" by (simp add: spec_transform_at_in_universe)
  qed
  with st have c_st: "Boolean (opt_strict (eng_options eng)) \<longrightarrow> set ?c \<subseteq> set u" by simp
  have dec: "encryptOrDecrypt eng (Some ?c) (Some secret) Decrypt
             = Inr (map (spec_transform_at u secret Decrypt ?c) [0..<length ?c])"
    using cm s c_ne c_st by (rule encryptOrDecrypt_string)
  have "map (spec_transform_at u secret Decrypt ?c) [0..<length ?c] = message"
  proof (rule nth_equalityI)
    show "length (map (spec_transform_at u secret Decrypt ?c) [0..<length ?c]) = length message"
      by simp
  next
    fix i assume "i < length (map (spec_transform_at u secret Decrypt ?c) [0..<length ?c])"
    then have i: "i < length message" by simp
    then have "?c ! i = spec_transform_at u secret Encrypt message i" by simp
    with d have "spec_transform_at u secret Decrypt ?c i = message ! i"
      by (rule decode_position)
    with i show "map (spec_transform_at u secret Decrypt ?c) [0..<length ?c] ! i = message ! i"
      by simp
  qed
  with dec have "encryptOrDecrypt eng (Some ?c) (Some secret) Decrypt = Inr message" by simp
  with enc show ?thesis by blast
qed

text \<open>
  Claim C1, as the code has it: for an engine whose universe is a string without a repeated
  symbol (every built-in alphabet is one), a non-empty secret whose symbols are all in the
  universe, and a non-empty message that is within the universe or handled with strict
  mode off, encoding returns a text and decoding that text with the same secret returns the
  message.
\<close>

theorem roundtrip_distinct_universe:
  assumes "charMapOf eng = Value (JStr u)" and "distinct u"
    and "secret \<noteq> []" and "set secret \<subseteq> set u"
    and "message \<noteq> []"
    and "set message \<subseteq> set u \<or> \<not> Boolean (opt_strict (eng_options eng))"
  shows "\<exists>c. encode eng (Some message) (Some secret) = Inr c
           \<and> decode eng (Some c) (Some secret) = Inr message"
proof -
  from assms(6) have "Boolean (opt_strict (eng_options eng)) \<longrightarrow> set message \<subseteq> set u"
    by blast
  with assms(1-5) show ?thesis
    unfolding encode_def decode_def defaultSecret_def
    by (simp add: roundtrip_operations)
qed

theorem roundtrip_distinct_universe_witness:
  "charMapOf (engineOf (typedOptions ''lowercase'' None JUndefined)) = Value (JStr lowercase)
   \<and> distinct lowercase \<and> ''key'' \<noteq> [] \<and> set ''key'' \<subseteq> set lowercase \<and> ''hello'' \<noteq> []
   \<and> (set ''hello'' \<subseteq> set lowercase
        \<or> \<not> Boolean (opt_strict (eng_options (engineOf (typedOptions ''lowercase'' None JUndefined)))))
   \<and> (\<exists>c. encode (engineOf (typedOptions ''lowercase'' None JUndefined)) (Some ''hello'') (Some ''key'')
              = Inr c
          \<and> decode (engineOf (typedOptions ''lowercase'' None JUndefined)) (Some c) (Some ''key'')
              = Inr ''hello'')"
proof -
  let ?eng = "engineOf (typedOptions ''lowercase'' None JUndefined)"
  have h1: "charMapOf ?eng = Value (JStr lowercase)" by (rule charMapOf_lowercase)
  have h2: "distinct lowercase" by (simp add: lowercase_def)
  have h3: "''key'' \<noteq> []" by simp
  have h4: "set ''key'' \<subseteq> set lowercase" by (simp add: lowercase_def)
  have h5: "''hello'' \<noteq> []" by simp
  have h6: "set ''hello'' \<subseteq> set lowercase \<or> \<not> Boolean (opt_strict (eng_options ?eng))"
    by (simp add: lowercase_def)
  from roundtrip_distinct_universe [OF h1 h2 h3 h4 h5 h6] h1 h2 h3 h4 h5 h6
  show ?thesis by blast
qed

text \<open>
  Claim C1 as stated fails on a universe with a repeated symbol: the custom universe
  \<^verbatim>\<open>aba\<close> is accepted by the constructor, and with the secret \<^verbatim>\<open>b\<close> the message
  \<^verbatim>\<open>b\<close> is encoded to \<^verbatim>\<open>a\<close>, which is decoded to \<^verbatim>\<open>a\<close>.
\<close>

theorem roundtrip_repeated_symbol_counterexample:
  "snd (Vigenere (typedOptions ''custom'' None (JStr ''aba'')))
     = Inr (engineOf (typedOptions ''custom'' None (JStr ''aba'')))
   \<and> charMapOf (engineOf (typedOptions ''custom'' None (JStr ''aba''))) = Value (JStr ''aba'')
   \<and> set ''b'' \<subseteq> set ''aba''
   \<and> encode (engineOf (typedOptions ''custom'' None (JStr ''aba''))) (Some ''b'') (Some ''b'')
       = Inr ''a''
   \<and> decode (engineOf (typedOptions ''custom'' None (JStr ''aba''))) (Some ''a'') (Some ''b'')
       = Inr ''a''
   \<and> decode (engineOf (typedOptions ''custom'' None (JStr ''aba''))) (Some ''a'') (Some ''b'')
       \<noteq> Inr ''b''"
  by code_simp

section \<open>Round trip over the built-in alphabets\<close>

lemma charMapOf_builtin_kinds:
  "charMapOf (engineOf (typedOptions ''alphanumeric'' strict characters))
   = Value (JStr ''abcdefghijklmnopqrstuvwxyzABCDEFGHIJKLMNOPQRSTUVWXYZ0123456789'')"
  "charMapOf (engineOf (typedOptions ''numbers'' strict characters)) = Value (JStr ''0123456789'')"
  "charMapOf (engineOf (typedOptions ''lowercase'' strict characters))
   = Value (JStr ''abcdefghijklmnopqrstuvwxyz'')"
  "charMapOf (engineOf (typedOptions ''uppercase'' strict characters))
   = Value (JStr ''ABCDEFGHIJKLMNOPQRSTUVWXYZ'')"
  "charMapOf (engineOf (typedOptions ''symbols'' strict characters)) = Value (JStr symbols)"
  "charMapOf (engineOf (typedOptions ''ascii'' strict characters))
   = Value (JStr (''abcdefghijklmnopqrstuvwxyzABCDEFGHIJKLMNOPQRSTUVWXYZ0123456789''
                  @ symbols @ '' ''))"
  "charMapOf (engineOf (typedOptions ''base64'' strict characters))
   = Value (JStr ''ABCDEFGHIJKLMNOPQRSTUVWXYZabcdefghijklmnopqrstuvwxyz0123456789+/='')"
  by (simp_all add: charMapOf_def typedOptions_def engineOf_def characterTypes_def getProp_def)

text \<open>Every built-in alphabet is a string without a repeated symbol.\<close>

lemma builtin_universe_distinct:
  assumes "kind \<in> {''alphanumeric'', ''numbers'', ''lowercase'', ''uppercase'', ''symbols'',
                     ''ascii'', ''base64''}"
    and "charMapOf (engineOf (typedOptions kind strict characters)) = Value (JStr u)"
  shows "distinct u"
proof -
  have step: "distinct u"
    if "kind = k" "charMapOf (engineOf (typedOptions k strict characters)) = Value (JStr w)"
      "distinct w" for k w
    using that assms(2) by simp
  from assms(1) have "kind = ''alphanumeric'' \<or> kind = ''numbers'' \<or> kind = ''lowercase''
      \<or> kind = ''uppercase'' \<or> kind = ''symbols'' \<or> kind = ''ascii'' \<or> kind = ''base64''"
    by simp
  then show ?thesis
  proof (elim disjE)
    assume "kind = ''alphanumeric''"
    then show ?thesis
      by (rule step [OF _ charMapOf_builtin_kinds(1) builtin_universes_distinct(1)])
  next
    assume "kind = ''numbers''"
    then show ?thesis
      by (rule step [OF _ charMapOf_builtin_kinds(2) builtin_universes_distinct(2)])
  next
    assume "kind = ''lowercase''"
    then show ?thesis
      by (rule step [OF _ charMapOf_builtin_kinds(3) builtin_universes_distinct(3)])
  next
    assume "kind = ''uppercase''"
    then show ?thesis
      by (rule step [OF _ charMapOf_builtin_kinds(4) builtin_universes_distinct(4)])
  next
    assume "kind = ''symbols''"
    then show ?thesis
      by (rule step [OF _ charMapOf_builtin_kinds(5) builtin_universes_distinct(5)])
  next
    assume "kind = ''ascii''"
    then show ?thesis
      by (rule step [OF _ charMapOf_builtin_kinds(6) builtin_universes_distinct(6)])
  next
    assume "kind = ''base64''"
    then show ?thesis
      by (rule step [OF _ charMapOf_builtin_kinds(7) builtin_universes_distinct(7)])
  qed
qed

lemma roundtrip_builtin:
  assumes "kind \<in> {''alphanumeric'', ''numbers'', ''lowercase'', ''uppercase'', ''symbols'',
                     ''ascii'', ''base64''}"
    and "charMapOf (engineOf (typedOptions kind strict characters)) = Value (JStr u)"
    and "secret \<noteq> []" "set secret \<subseteq> set u" "message \<noteq> []"
    and "set message \<subseteq> set u \<or> \<not> Boolean strict"
  shows "\<exists>c. encode (engineOf (typedOptions kind strict characters)) (Some message) (Some secret)
               = Inr c
           \<and> decode (engineOf (typedOptions kind strict characters)) (Some c) (Some secret)
               = Inr message"
proof -
  let ?eng = "engineOf (typedOptions kind strict characters)"
  from assms(1,2) have d: "distinct u" by (rule builtin_universe_distinct)
  from assms(6) have st: "Boolean (opt_strict (eng_options ?eng)) \<longrightarrow> set message \<subseteq> set u"
    by (auto simp: strict_engineOf)
  from roundtrip_operations [OF assms(2) d assms(3,4,5) st] show ?thesis
    by (simp add: encode_def decode_def defaultSecret_def)
qed

section \<open>Index arithmetic of the transform\<close>

lemma first_occurrence_member: "first_occurrence u c x \<Longrightarrow> c \<in> set u"
  by (auto simp: first_occurrence_def)

lemma spec_transform_at_known:
  assumes "first_occurrence u (secret ! (i mod length secret)) x"
    and "first_occurrence u (message ! i) y"
  shows "spec_transform_at u secret Encrypt message i
           = u ! nat ((int x + int y) mod int (length u))"
    and "spec_transform_at u secret Decrypt message i
           = u ! nat ((int y - int x + int (length u)) mod int (length u))"
  using first_occurrence_listIndexOf [OF assms(1)] first_occurrence_listIndexOf [OF assms(2)]
    first_occurrence_member [OF assms(2)]
  by (simp_all add: spec_transform_at_def Let_def)

text \<open>
  Claim C2: in a call that passes validation, at every message position \<open>i\<close> whose symbol
  is in the universe, with \<open>x\<close> the first-occurrence index of the key symbol
  \<open>secret[i mod len(secret)]\<close>, \<open>y\<close> the first-occurrence index of the message symbol and
  \<open>L\<close> the length of the universe, encode returns a text whose position \<open>i\<close> holds the
  universe symbol at index \<open>(x + y) mod L\<close>, and decode one whose position \<open>i\<close> holds the
  universe symbol at index \<open>(y - x + L) mod L\<close>.
\<close>

theorem transform_index_arithmetic:
  assumes "charMapOf eng = Value (JStr u)"
    and "secret \<noteq> []" and "set secret \<subseteq> set u"
    and "message \<noteq> []"
    and "Boolean (opt_strict (eng_options eng)) \<longrightarrow> set message \<subseteq> set u"
    and "i < length message"
    and "first_occurrence u (secret ! (i mod length secret)) x"
    and "first_occurrence u (message ! i) y"
  shows "\<exists>e d. encode eng (Some message) (Some secret) = Inr e
             \<and> decode eng (Some message) (Some secret) = Inr d
             \<and> length e = length message \<and> length d = length message
             \<and> e ! i = u ! nat ((int x + int y) mod int (length u))
             \<and> d ! i = u ! nat ((int y - int x + int (length u)) mod int (length u))"
proof -
  let ?e = "map (spec_transform_at u secret Encrypt message) [0..<length message]"
  let ?d = "map (spec_transform_at u secret Decrypt message) [0..<length message]"
  have "encode eng (Some message) (Some secret) = Inr ?e"
    unfolding encode_def defaultSecret_def
    using assms(1-5) by (simp add: encryptOrDecrypt_string)
  moreover have "decode eng (Some message) (Some secret) = Inr ?d"
    unfolding decode_def defaultSecret_def
    using assms(1-5) by (simp add: encryptOrDecrypt_string)
  moreover have "?e ! i = u ! nat ((int x + int y) mod int (length u))"
    using assms(6) spec_transform_at_known(1) [OF assms(7,8)] by simp
  moreover have "?d ! i = u ! nat ((int y - int x + int (length u)) mod int (length u))"
    using assms(6) spec_transform_at_known(2) [OF assms(7,8)] by simp
  ultimately show ?thesis by simp
qed

theorem transform_index_arithmetic_witness:
  "charMapOf (engineOf (typedOptions ''numbers'' None JUndefined)) = Value (JStr ''0123456789'')
   \<and> ''789'' \<noteq> [] \<and> set ''789'' \<subseteq> set ''0123456789'' \<and> ''456'' \<noteq> []
   \<and> set ''456'' \<subseteq> set ''0123456789''
   \<and> (1::nat) < length ''456''
   \<and> first_occurrence ''0123456789'' (''789'' ! (1 mod length ''789'')) 8
   \<and> first_occurrence ''0123456789'' (''456'' ! 1) 5
   \<and> (\<exists>e d. encode (engineOf (typedOptions ''numbers'' None JUndefined)) (Some ''456'') (Some ''789'')
                = Inr e
            \<and> decode (engineOf (typedOptions ''numbers'' None JUndefined)) (Some ''456'') (Some ''789'')
                = Inr d
            \<and> length e = length ''456'' \<and> length d = length ''456''
            \<and> e ! 1 = ''0123456789'' ! nat ((int 8 + int 5) mod int (length ''0123456789''))
            \<and> d ! 1 = ''0123456789''
                        ! nat ((int 5 - int 8 + int (length ''0123456789''))
                               mod int (length ''0123456789'')))"
proof -
  let ?eng = "engineOf (typedOptions ''numbers'' None JUndefined)"
  have h1: "charMapOf ?eng = Value (JStr ''0123456789'')"
    by (simp add: charMapOf_def typedOptions_def engineOf_def characterTypes_def getProp_def)
  have h2: "''789'' \<noteq> []" by simp
  have h3: "set ''789'' \<subseteq> set ''0123456789''" by simp
  have h4: "''456'' \<noteq> []" by simp
  have h5: "Boolean (opt_strict (eng_options ?eng)) \<longrightarrow> set ''456'' \<subseteq> set ''0123456789''"
    by simp
  have h6: "(1::nat) < length ''456''" by simp
  have h7: "first_occurrence ''0123456789'' (''789'' ! (1 mod length ''789'')) 8"
    by (simp add: first_occurrence_def)
  have h8: "first_occurrence ''0123456789'' (''456'' ! 1) 5"
    by (simp add: first_occurrence_def)
  have h5': "set ''456'' \<subseteq> set ''0123456789''" by simp
  from transform_index_arithmetic [OF h1 h2 h3 h4 h5 h6 h7 h8] h1 h2 h3 h4 h5' h6 h7 h8
  show ?thesis by blast
qed

lemma index_arithmetic_example:
  "encode (engineOf (typedOptions ''numbers'' None JUndefined)) (Some ''456'') (Some ''789'')
     = Inr ''135''"
  "decode (engineOf (typedOptions ''numbers'' None JUndefined)) (Some ''456'') (Some ''789'')
     = Inr ''777''"
  by code_simp+

section \<open>Pass-through with strict mode off\<close>

text \<open>
  Claim C3: with strict mode off, encode and decode return a text of the length of the
  message in which every message symbol absent from the universe stands unchanged at its
  own position, and every other position \<open>i\<close> is shifted by the key symbol
  \<open>secret[i mod len(secret)]\<close> of the absolute position \<open>i\<close>, whatever was passed through
  before it.
\<close>

theorem lenient_pass_through:
  assumes "charMapOf eng = Value (JStr u)"
    and "\<not> Boolean (opt_strict (eng_options eng))"
    and "secret \<noteq> []" and "set secret \<subseteq> set u"
    and "message \<noteq> []"
  shows "\<exists>e d. encode eng (Some message) (Some secret) = Inr e
             \<and> decode eng (Some message) (Some secret) = Inr d
             \<and> length e = length message \<and> length d = length message
             \<and> (\<forall>i<length message. message ! i \<notin> set u \<longrightarrow>
                    e ! i = message ! i \<and> d ! i = message ! i)
             \<and> (\<forall>i<length message. message ! i \<in> set u \<longrightarrow>
                    e ! i = u ! nat ((listIndexOf u (secret ! (i mod length secret))
                                      + listIndexOf u (message ! i)) mod int (length u))
                  \<and> d ! i = u ! nat ((listIndexOf u (message ! i)
                                      - listIndexOf u (secret ! (i mod length secret))
                                      + int (length u)) mod int (length u)))"
proof -
  let ?e = "map (spec_transform_at u secret Encrypt message) [0..<length message]"
  let ?d = "map (spec_transform_at u secret Decrypt message) [0..<length message]"
  from assms(2) have st: "Boolean (opt_strict (eng_options eng)) \<longrightarrow> set message \<subseteq> set u"
    by simp
  have "encode eng (Some message) (Some secret) = Inr ?e"
    unfolding encode_def defaultSecret_def
    using assms(1,3-5) st by (simp add: encryptOrDecrypt_string)
  moreover have "decode eng (Some message) (Some secret) = Inr ?d"
    unfolding decode_def defaultSecret_def
    using assms(1,3-5) st by (simp add: encryptOrDecrypt_string)
  moreover have "\<forall>i<length message. message ! i \<notin> set u \<longrightarrow>
                    ?e ! i = message ! i \<and> ?d ! i = message ! i"
    by (simp add: spec_transform_at_def)
  moreover have "\<forall>i<length message. message ! i \<in> set u \<longrightarrow>
                    ?e ! i = u ! nat ((listIndexOf u (secret ! (i mod length secret))
                                      + listIndexOf u (message ! i)) mod int (length u))
                  \<and> ?d ! i = u ! nat ((listIndexOf u (message ! i)
                                      - listIndexOf u (secret ! (i mod length secret))
                                      + int (length u)) mod int (length u))"
    by (simp add: spec_transform_at_def Let_def)
  ultimately show ?thesis by simp
qed

theorem lenient_pass_through_witness:
  "charMapOf (engineOf (typedOptions ''lowercase'' (Some False) JUndefined)) = Value (JStr lowercase)
   \<and> \<not> Boolean (opt_strict (eng_options (engineOf (typedOptions ''lowercase'' (Some False) JUndefined))))
   \<and> ''key'' \<noteq> [] \<and> set ''key'' \<subseteq> set lowercase \<and> ''he llo!'' \<noteq> []
   \<and> (\<exists>e d. encode (engineOf (typedOptions ''lowercase'' (Some False) JUndefined))
                (Some ''he llo!'') (Some ''key'') = Inr e
            \<and> decode (engineOf (typedOptions ''lowercase'' (Some False) JUndefined))
                (Some ''he llo!'') (Some ''key'') = Inr d
            \<and> length e = length ''he llo!'' \<and> length d = length ''he llo!''
            \<and> (\<forall>i<length ''he llo!''. ''he llo!'' ! i \<notin> set lowercase \<longrightarrow>
                    e ! i = ''he llo!'' ! i \<and> d ! i = ''he llo!'' ! i)
            \<and> (\<forall>i<length ''he llo!''. ''he llo!'' ! i \<in> set lowercase \<longrightarrow>
                    e ! i = lowercase ! nat ((listIndexOf lowercase (''key'' ! (i mod length ''key''))
                                              + listIndexOf lowercase (''he llo!'' ! i))
                                             mod int (length lowercase))
                  \<and> d ! i = lowercase ! nat ((listIndexOf lowercase (''he llo!'' ! i)
                                              - listIndexOf lowercase (''key'' ! (i mod length ''key''))
                                              + int (length lowercase)) mod int (length lowercase))))"
proof -
  let ?eng = "engineOf (typedOptions ''lowercase'' (Some False) JUndefined)"
  have h1: "charMapOf ?eng = Value (JStr lowercase)" by (rule charMapOf_lowercase)
  have h2: "\<not> Boolean (opt_strict (eng_options ?eng))" by (simp add: strict_engineOf)
  have h3: "''key'' \<noteq> []" by simp
  have h4: "set ''key'' \<subseteq> set lowercase" by (simp add: lowercase_def)
  have h5: "''he llo!'' \<noteq> []" by simp
  from lenient_pass_through [OF h1 h2 h3 h4 h5] h1 h2 h3 h4 h5
  show ?thesis by blast
qed

text \<open>
  The space and the exclamation mark stay in place, and the letter after the space is
  shifted by the key symbol of its own position 3, not of the count of shifted letters.
\<close>

lemma lenient_example:
  "encode (engineOf (typedOptions ''lowercase'' (Some False) JUndefined)) (Some ''he llo!'')
     (Some ''key'') = Inr ''ri vpm!''"
  "decode (engineOf (typedOptions ''lowercase'' (Some False) JUndefined)) (Some ''ri vpm!'')
     (Some ''key'') = Inr ''he llo!''"
  by code_simp+

section \<open>Rejected secrets and messages\<close>

lemma verifySecret_first_illegal:
  assumes "charMapOf eng = Value (JStr u)" "set pre \<subseteq> set u" "c \<notin> set u"
  shows "verifySecret eng (Some (pre @ c # post)) = Inl (secretCharacterError (Value (JStr u)) c)"
  using assms by (simp add: verifySecret_def everyCharacter_string_first)

lemma verifyMessage_first_illegal:
  assumes "charMapOf eng = Value (JStr u)" "Boolean strict" "set pre \<subseteq> set u" "c \<notin> set u"
  shows "verifyMessage eng (Some (pre @ c # post)) strict
         = Inl (messageCharacterError (Value (JStr u)) c)"
  using assms by (simp add: verifyMessage_def everyCharacter_string_first)

text \<open>
  Claim C4: whatever the strict setting and the message, when the secret a call resolves
  to (its argument, or the default of the options record) has a symbol outside the
  universe, encode and decode fail with the error that names the first such symbol from
  the left, and return no text.
\<close>

theorem illegal_secret_character:
  assumes "charMapOf eng = Value (JStr u)"
    and "defaultSecret eng secret = Some (pre @ c # post)"
    and "set pre \<subseteq> set u" and "c \<notin> set u"
  shows "encode eng message secret
           = Inl (TypeError (''Secret characters must contains only values from '' @ quoted u
                             @ ''. ['' @ quoted [c] @ ''] not allowed!''))
       \<and> decode eng message secret
           = Inl (TypeError (''Secret characters must contains only values from '' @ quoted u
                             @ ''. ['' @ quoted [c] @ ''] not allowed!''))"
  using verifySecret_first_illegal [OF assms(1,3,4), of post] assms(2)
  by (simp add: encode_def decode_def encryptOrDecrypt_def secretCharacterError_def)

theorem illegal_secret_character_witness:
  "charMapOf (engineOf (typedOptions ''lowercase'' (Some False) JUndefined)) = Value (JStr lowercase)
   \<and> defaultSecret (engineOf (typedOptions ''lowercase'' (Some False) JUndefined)) (Some ''kEY'')
       = Some (''k'' @ CHR ''E'' # ''Y'')
   \<and> set ''k'' \<subseteq> set lowercase \<and> CHR ''E'' \<notin> set lowercase
   \<and> encode (engineOf (typedOptions ''lowercase'' (Some False) JUndefined)) (Some ''hello'')
         (Some ''kEY'')
       = Inl (TypeError (''Secret characters must contains only values from '' @ quoted lowercase
                         @ ''. ['' @ quoted [CHR ''E''] @ ''] not allowed!''))
   \<and> decode (engineOf (typedOptions ''lowercase'' (Some False) JUndefined)) (Some ''hello'')
         (Some ''kEY'')
       = Inl (TypeError (''Secret characters must contains only values from '' @ quoted lowercase
                         @ ''. ['' @ quoted [CHR ''E''] @ ''] not allowed!''))"
proof -
  let ?eng = "engineOf (typedOptions ''lowercase'' (Some False) JUndefined)"
  have h1: "charMapOf ?eng = Value (JStr lowercase)" by (rule charMapOf_lowercase)
  have h2: "defaultSecret ?eng (Some ''kEY'') = Some (''k'' @ CHR ''E'' # ''Y'')"
    by (simp add: defaultSecret_def)
  have h3: "set ''k'' \<subseteq> set lowercase" by (simp add: lowercase_def)
  have h4: "CHR ''E'' \<notin> set lowercase" by (simp add: lowercase_def)
  from illegal_secret_character [OF h1 h2 h3 h4, of "Some ''hello''"] h1 h2 h3 h4
  show ?thesis by blast
qed

text \<open>
  Claim C5: with strict mode on and a message that has a symbol outside the universe, encode
  and decode return no text; when the secret passes its own check, which runs first, the
  error is the one that names the first such message symbol from the left.
\<close>

theorem strict_illegal_message_character:
  assumes "charMapOf eng = Value (JStr u)"
    and "Boolean (opt_strict (eng_options eng))"
    and "set pre \<subseteq> set u" and "c \<notin> set u"
  shows "(\<exists>e. encode eng (Some (pre @ c # post)) secret = Inl e)
       \<and> (\<exists>e. decode eng (Some (pre @ c # post)) secret = Inl e)
       \<and> (\<forall>s. defaultSecret eng secret = Some s \<and> s \<noteq> [] \<and> set s \<subseteq> set u \<longrightarrow>
            encode eng (Some (pre @ c # post)) secret
              = Inl (TypeError (''Message characters must contains only values from '' @ quoted u
                                @ ''. ['' @ quoted [c] @ ''] not allowed in strict mode!''))
          \<and> decode eng (Some (pre @ c # post)) secret
              = Inl (TypeError (''Message characters must contains only values from '' @ quoted u
                                @ ''. ['' @ quoted [c] @ ''] not allowed in strict mode!'')))"
proof -
  let ?m = "Some (pre @ c # post)" and ?k = "defaultSecret eng secret"
  have vm: "verifyMessage eng ?m (opt_strict (eng_options eng))
            = Inl (messageCharacterError (Value (JStr u)) c)"
    using assms by (rule verifyMessage_first_illegal)
  have fails: "\<exists>e. encryptOrDecrypt eng ?m ?k operation = Inl e" for operation
    using vm by (cases "verifySecret eng ?k") (simp_all add: encryptOrDecrypt_def)
  have named: "encryptOrDecrypt eng ?m ?k operation = Inl (messageCharacterError (Value (JStr u)) c)"
    if "?k = Some s" "s \<noteq> []" "set s \<subseteq> set u" for s operation
  proof -
    from that have "verifySecret eng ?k = Inr ()"
      by (simp add: verifySecret_string_iff [OF assms(1)])
    with vm show ?thesis by (simp add: encryptOrDecrypt_def)
  qed
  from fails [of Encrypt] fails [of Decrypt] named [of _ Encrypt] named [of _ Decrypt]
  show ?thesis
    by (simp add: encode_def decode_def messageCharacterError_def)
qed

theorem strict_illegal_message_character_witness:
  "charMapOf (engineOf (typedOptions ''lowercase'' (Some True) JUndefined)) = Value (JStr lowercase)
   \<and> Boolean (opt_strict (eng_options (engineOf (typedOptions ''lowercase'' (Some True) JUndefined))))
   \<and> set ''hello'' \<subseteq> set lowercase \<and> CHR ''!'' \<notin> set lowercase
   \<and> defaultSecret (engineOf (typedOptions ''lowercase'' (Some True) JUndefined)) (Some ''key'')
       = Some ''key''
   \<and> ''key'' \<noteq> [] \<and> set ''key'' \<subseteq> set lowercase
   \<and> encode (engineOf (typedOptions ''lowercase'' (Some True) JUndefined))
         (Some (''hello'' @ CHR ''!'' # [])) (Some ''key'')
       = Inl (TypeError (''Message characters must contains only values from '' @ quoted lowercase
                         @ ''. ['' @ quoted [CHR ''!''] @ ''] not allowed in strict mode!''))
   \<and> decode (engineOf (typedOptions ''lowercase'' (Some True) JUndefined))
         (Some (''hello'' @ CHR ''!'' # [])) (Some ''key'')
       = Inl (TypeError (''Message characters must contains only values from '' @ quoted lowercase
                         @ ''. ['' @ quoted [CHR ''!''] @ ''] not allowed in strict mode!''))"
proof -
  let ?eng = "engineOf (typedOptions ''lowercase'' (Some True) JUndefined)"
  have h1: "charMapOf ?eng = Value (JStr lowercase)" by (rule charMapOf_lowercase)
  have h2: "Boolean (opt_strict (eng_options ?eng))" by (simp add: strict_engineOf)
  have h3: "set ''hello'' \<subseteq> set lowercase" by (simp add: lowercase_def)
  have h4: "CHR ''!'' \<notin> set lowercase" by (simp add: lowercase_def)
  have h5: "defaultSecret ?eng (Some ''key'') = Some ''key''" by (simp add: defaultSecret_def)
  have h6: "''key'' \<noteq> []" by simp
  have h7: "set ''key'' \<subseteq> set lowercase" by (simp add: lowercase_def)
  from strict_illegal_message_character [OF h1 h2 h3 h4, of "[]" "Some ''key''"] h5 h6 h7
  have "encode ?eng (Some (''hello'' @ CHR ''!'' # [])) (Some ''key'')
       = Inl (TypeError (''Message characters must contains only values from '' @ quoted lowercase
                         @ ''. ['' @ quoted [CHR ''!''] @ ''] not allowed in strict mode!''))
   \<and> decode ?eng (Some (''hello'' @ CHR ''!'' # [])) (Some ''key'')
       = Inl (TypeError (''Message characters must contains only values from '' @ quoted lowercase
                         @ ''. ['' @ quoted [CHR ''!''] @ ''] not allowed in strict mode!''))"
    by blast
  with h1 h2 h3 h4 h5 h6 h7 show ?thesis by blast
qed

text \<open>
  With strict mode on, a secret outside the universe is reported before the message is
  looked at.
\<close>

lemma strict_secret_checked_first:
  "encode (engineOf (typedOptions ''lowercase'' (Some True) JUndefined)) (Some ''hello!'')
     (Some ''K'')
   = Inl (TypeError (''Secret characters must contains only values from '' @ quoted lowercase
                     @ ''. ['' @ quoted ''K'' @ ''] not allowed!''))"
  by code_simp

section \<open>Length of the output\<close>

text \<open>
  Over a string universe, whenever encode or decode returns a text, the message was a
  string and the text has exactly its length.
\<close>

lemma output_length_string_universe:
  assumes "charMapOf eng = Value (JStr u)"
    and "encode eng message secret = Inr out \<or> decode eng message secret = Inr out"
  shows "\<exists>m. message = Some m \<and> length out = length m"
proof -
  from assms(2) obtain operation
    where "encryptOrDecrypt eng message (defaultSecret eng secret) operation = Inr out"
    by (auto simp: encode_def decode_def)
  from encryptOrDecrypt_string_Inr [OF assms(1) this]
  show ?thesis by auto
qed

lemma output_length_example:
  "encode (engineOf (typedOptions ''lowercase'' None JUndefined)) (Some ''hello'') (Some ''key'')
     = Inr ''rijvs''"
  "length ''rijvs'' = length ''hello''"
  by code_simp+

text \<open>
  Claim C9 on \<^verbatim>\<open>src/index.js\<close>: the constructor accepts the array
  \<^verbatim>\<open>["a", "b", "cd"]\<close> as custom characters, since it reads only its length. The
  loop then searches the array element by element and appends the element at the shifted
  index: with the secret \<^verbatim>\<open>b\<close>, encoding the message \<^verbatim>\<open>b\<close> and decoding the
  message \<^verbatim>\<open>a\<close> both pass validation and return \<^verbatim>\<open>cd\<close>, two symbols for a
  message of one.
\<close>

theorem output_length_array_characters_index_js:
  "snd (Vigenere (typedOptions ''custom'' None (JArr [''a'', ''b'', ''cd''])))
     = Inr (engineOf (typedOptions ''custom'' None (JArr [''a'', ''b'', ''cd''])))
   \<and> verifySecret (engineOf (typedOptions ''custom'' None (JArr [''a'', ''b'', ''cd'']))) (Some ''b'')
       = Inr ()
   \<and> encode (engineOf (typedOptions ''custom'' None (JArr [''a'', ''b'', ''cd''])))
         (Some ''b'') (Some ''b'') = Inr ''cd''
   \<and> decode (engineOf (typedOptions ''custom'' None (JArr [''a'', ''b'', ''cd''])))
         (Some ''a'') (Some ''b'') = Inr ''cd''
   \<and> length ''cd'' = 2 \<and> length ''b'' = 1 \<and> length ''a'' = 1"
  by code_simp

section \<open>What construction writes to the options record\<close>

text \<open>
  Claim C10: the record the caller passed holds, after construction, \<open>true\<close> as
  \<open>strict\<close> when \<open>strict\<close> was \<open>true\<close> and \<open>false\<close> when it was \<open>false\<close> or absent,
  and \<^verbatim>\<open>base64\<close> as \<open>type\<close> when \<open>type\<close> was absent (or empty), a given kind staying
  as it was; every other field is as it was; and the engine reads that same record.
\<close>

theorem construction_writes_options:
  "fst (Vigenere options0)
     = options0\<lparr>opt_strict := Some (opt_strict options0 = Some True),
                opt_type := (case opt_type options0 of
                               None \<Rightarrow> Some ''base64''
                             | Some kind \<Rightarrow> if kind = [] then Some ''base64'' else Some kind)\<rparr>
   \<and> (opt_strict options0 = Some True \<longrightarrow> opt_strict (fst (Vigenere options0)) = Some True)
   \<and> (opt_strict options0 = Some False \<or> opt_strict options0 = None \<longrightarrow>
        opt_strict (fst (Vigenere options0)) = Some False)
   \<and> (opt_type options0 = None \<or> opt_type options0 = Some [] \<longrightarrow>
        opt_type (fst (Vigenere options0)) = Some ''base64'')
   \<and> (\<forall>kind. opt_type options0 = Some kind \<and> kind \<noteq> [] \<longrightarrow>
        opt_type (fst (Vigenere options0)) = Some kind)
   \<and> opt_characters (fst (Vigenere options0)) = opt_characters options0
   \<and> opt_secret (fst (Vigenere options0)) = opt_secret options0
   \<and> (\<forall>eng. snd (Vigenere options0) = Inr eng \<longrightarrow> eng_options eng = fst (Vigenere options0))"
proof -
  have strict: "Boolean (opt_strict options0) = (opt_strict options0 = Some True)"
    by (cases "opt_strict options0") auto
  have kind: "(if truthyStr (opt_type options0) then opt_type options0 else Some ''base64'')
              = (case opt_type options0 of
                   None \<Rightarrow> Some ''base64''
                 | Some kind \<Rightarrow> if kind = [] then Some ''base64'' else Some kind)"
    by (cases "opt_type options0") auto
  have written: "fst (Vigenere options0)
     = options0\<lparr>opt_strict := Some (Boolean (opt_strict options0)),
                opt_type := (if truthyStr (opt_type options0) then opt_type options0
                             else Some ''base64'')\<rparr>"
    by (auto simp: Vigenere_def Let_def)
  have closure: "\<forall>eng. snd (Vigenere options0) = Inr eng \<longrightarrow> eng_options eng = fst (Vigenere options0)"
    by (auto simp: Vigenere_def Let_def)
  from written have eq: "fst (Vigenere options0)
     = options0\<lparr>opt_strict := Some (opt_strict options0 = Some True),
                opt_type := (case opt_type options0 of
                               None \<Rightarrow> Some ''base64''
                             | Some kind \<Rightarrow> if kind = [] then Some ''base64'' else Some kind)\<rparr>"
    by (simp only: strict kind)
  from eq closure show ?thesis by auto
qed

theorem construction_writes_options_witness:
  "fst (Vigenere \<lparr>opt_type = None, opt_strict = None, opt_characters = JUndefined,
                  opt_secret = Some ''Key''\<rparr>)
     = \<lparr>opt_type = Some ''base64'', opt_strict = Some False, opt_characters = JUndefined,
        opt_secret = Some ''Key''\<rparr>
   \<and> fst (Vigenere \<lparr>opt_type = Some ''lowercase'', opt_strict = Some True,
                    opt_characters = JStr ''xyz'', opt_secret = None\<rparr>)
       = \<lparr>opt_type = Some ''lowercase'', opt_strict = Some True, opt_characters = JStr ''xyz'',
          opt_secret = None\<rparr>
   \<and> fst (Vigenere \<lparr>opt_type = Some [], opt_strict = Some False,
                    opt_characters = JNull, opt_secret = None\<rparr>)
       = \<lparr>opt_type = Some ''base64'', opt_strict = Some False, opt_characters = JNull,
          opt_secret = None\<rparr>
   \<and> (\<exists>eng. snd (Vigenere \<lparr>opt_type = Some ''lowercase'', opt_strict = Some True,
                            opt_characters = JStr ''xyz'', opt_secret = None\<rparr>) = Inr eng
            \<and> eng_options eng
                = \<lparr>opt_type = Some ''lowercase'', opt_strict = Some True,
                   opt_characters = JStr ''xyz'', opt_secret = None\<rparr>)"
proof -
  let ?absent = "\<lparr>opt_type = None, opt_strict = None, opt_characters = JUndefined,
                  opt_secret = Some ''Key''\<rparr>"
  let ?given = "\<lparr>opt_type = Some ''lowercase'', opt_strict = Some True,
                 opt_characters = JStr ''xyz'', opt_secret = None\<rparr>"
  let ?empty = "\<lparr>opt_type = Some [], opt_strict = Some False,
                 opt_characters = JNull, opt_secret = None\<rparr>"
  have ok: "\<exists>eng. snd (Vigenere ?given) = Inr eng"
    by (simp add: Vigenere_def Let_def characterTypes_def getProp_def)
  from construction_writes_options [of ?absent]
  have a: "fst (Vigenere ?absent)
           = \<lparr>opt_type = Some ''base64'', opt_strict = Some False, opt_characters = JUndefined,
              opt_secret = Some ''Key''\<rparr>"
    by simp
  from construction_writes_options [of ?given]
  have g: "fst (Vigenere ?given) = ?given"
    and c: "\<forall>eng. snd (Vigenere ?given) = Inr eng \<longrightarrow> eng_options eng = fst (Vigenere ?given)"
    by simp_all
  from construction_writes_options [of ?empty]
  have e: "fst (Vigenere ?empty)
           = \<lparr>opt_type = Some ''base64'', opt_strict = Some False, opt_characters = JNull,
              opt_secret = None\<rparr>"
    by simp
  from ok c g have "\<exists>eng. snd (Vigenere ?given) = Inr eng \<and> eng_options eng = ?given"
    by auto
  with a g e show ?thesis by simp
qed

section \<open>Errors of construction\<close>

lemma characterTypes_keys:
  "map fst (characterTypes options0)
   = [''alphanumeric'', ''numbers'', ''lowercase'', ''uppercase'', ''symbols'', ''ascii'',
      ''base64'', ''custom'']"
  "map fst characterTypes_spec_js
   = [''numbers'', ''custom'', ''lowercase'', ''uppercase'', ''symbols'', ''base64'',
      ''alphanumeric'', ''ascii'']"
  by (simp_all add: characterTypes_def characterTypes_spec_js_def)

lemma invalid_type_messages:
  "''Invalid character type. Available options are: ''
     @ join '', '' (map fst (characterTypes options0)) @ '';'' = invalidTypeMessage"
  "''Invalid type provided. Available options are: ''
     @ join '', '' (map fst characterTypes_spec_js) @ '';'' = invalidTypeMessage_expected"
  by (simp_all add: characterTypes_keys invalidTypeMessage_def invalidTypeMessage_expected_def)

text \<open>
  The constructor of \<^verbatim>\<open>src/index.js\<close> on a kind that is no key of the table and no
  member of \<^verbatim>\<open>Object.prototype\<close>, and on the kind \<^verbatim>\<open>custom\<close> with falsy characters:
  both stop at the first check, since the table holds \<^verbatim>\<open>options.characters\<close> itself
  under \<^verbatim>\<open>custom\<close>.
\<close>

lemma Vigenere_unknown_kind:
  assumes "kind \<noteq> []" "kind \<notin> set (map fst (characterTypes (typedOptions kind strict characters)))"
    and "kind \<notin> set objectPrototypeKeys"
  shows "snd (Vigenere (typedOptions kind strict characters)) = Inl (TypeError invalidTypeMessage)"
proof -
  from assms(2) have "map_of (characterTypes (typedOptions kind strict characters)) kind = None"
    by (simp add: map_of_eq_None_iff)
  with assms(1,3) show ?thesis
    unfolding Vigenere_def Let_def invalid_type_messages
    by (simp add: typedOptions_def getProp_def)
qed

lemma Vigenere_custom_falsy:
  assumes "\<not> truthy characters"
  shows "snd (Vigenere (typedOptions ''custom'' strict characters))
         = Inl (TypeError invalidTypeMessage)"
  using assms
  unfolding Vigenere_def Let_def invalid_type_messages
  by (simp add: typedOptions_def getProp_def characterTypes_def)

lemma Vigenere_custom_array:
  assumes "xs \<noteq> []"
  shows "snd (Vigenere (typedOptions ''custom'' strict (JArr xs)))
         = Inr (engineOf (typedOptions ''custom'' strict (JArr xs)))"
  using assms
  by (simp add: Vigenere_def Let_def typedOptions_def getProp_def engineOf_def
      charactersLength_def characterTypes_def)

text \<open>The copy in the test file does on these inputs what its tests expect.\<close>

lemma Vigenere_spec_js_unknown_kind:
  assumes "kind \<noteq> []" "kind \<notin> set (map fst characterTypes_spec_js)"
    and "kind \<notin> set objectPrototypeKeys"
  shows "snd (Vigenere_spec_js (typedOptions kind strict characters))
         = Inl (TypeError invalidTypeMessage_expected)"
proof -
  from assms(2) have "map_of characterTypes_spec_js kind = None"
    by (simp add: map_of_eq_None_iff)
  with assms(1,3) show ?thesis
    unfolding Vigenere_spec_js_def Let_def invalid_type_messages
    by (simp add: typedOptions_def getProp_def)
qed

lemma Vigenere_spec_js_custom_falsy:
  assumes "\<not> truthy characters"
  shows "snd (Vigenere_spec_js (typedOptions ''custom'' strict characters))
         = Inl (TypeError charactersMissingMessage)"
  using assms
  by (simp add: Vigenere_spec_js_def Let_def typedOptions_def getProp_def
      characterTypes_spec_js_def charactersMissingMessage_def)

lemma Vigenere_spec_js_custom_array:
  "snd (Vigenere_spec_js (typedOptions ''custom'' strict (JArr xs)))
   = Inl (TypeError charactersInvalidMessage)"
  by (simp add: Vigenere_spec_js_def Let_def typedOptions_def getProp_def
      characterTypes_spec_js_def charactersInvalidMessage_def)

lemma tests_on_spec_js: "test_invalid_type Vigenere_spec_js" "test_custom_characters Vigenere_spec_js"
  by code_simp+

lemma tests_on_index_js: "\<not> test_invalid_type Vigenere" "\<not> test_custom_characters Vigenere"
  by code_simp+

text \<open>
  The copy in the test file is not a working cipher: its \<^verbatim>\<open>verifySecret\<close> rejects every
  string, so neither of its operations returns a text.
\<close>

lemma encryptOrDecrypt_spec_js_fails:
  "\<exists>e. encryptOrDecrypt_spec_js eng message secret operation = Inl e"
  by (simp add: encryptOrDecrypt_spec_js_def verifySecret_spec_js_def valueOfString_def
      split: option.splits)

text \<open>
  Claim C6 on \<^verbatim>\<open>src/index.js\<close>: with the kind \<^verbatim>\<open>custom\<close> and characters absent, null or
  empty, the constructor fails with the error of an invalid kind, and the message the
  claim and the test expect is not in it.
\<close>

theorem custom_without_characters_index_js:
  "snd (Vigenere (typedOptions ''custom'' None JUndefined)) = Inl (TypeError invalidTypeMessage)
   \<and> snd (Vigenere (typedOptions ''custom'' None JNull)) = Inl (TypeError invalidTypeMessage)
   \<and> snd (Vigenere (typedOptions ''custom'' None (JStr []))) = Inl (TypeError invalidTypeMessage)
   \<and> \<not> stringIncludes invalidTypeMessage charactersMissingMessage"
proof -
  have "\<not> stringIncludes invalidTypeMessage charactersMissingMessage" by code_simp
  then show ?thesis by (simp add: Vigenere_custom_falsy)
qed

text \<open>
  Claim C7 on \<^verbatim>\<open>src/index.js\<close>: with the kind \<^verbatim>\<open>custom\<close> and the array
  \<^verbatim>\<open>["abc"]\<close> as characters, the constructor throws nothing and returns an engine.
\<close>

theorem custom_array_characters_index_js:
  "snd (Vigenere (typedOptions ''custom'' None (JArr [''abc''])))
   = Inr (engineOf (typedOptions ''custom'' None (JArr [''abc''])))"
  by (simp add: Vigenere_custom_array)

text \<open>
  Claim C8 on \<^verbatim>\<open>src/index.js\<close>: for the kind \<^verbatim>\<open>invalid\<close> the constructor fails with
  a message that lists the eight kinds in the order of its own table, alphanumeric first
  and custom last, which is not the order the claim and the test give.
\<close>

theorem invalid_type_message_index_js:
  "snd (Vigenere (typedOptions ''invalid'' None JUndefined))
     = Inl (TypeError (''Invalid character type. Available options are: ''
                       @ ''alphanumeric, numbers, lowercase, uppercase, symbols, ascii, base64, custom;''))
   \<and> \<not> stringIncludes
         (''Invalid character type. Available options are: ''
          @ ''alphanumeric, numbers, lowercase, uppercase, symbols, ascii, base64, custom;'')
         ''numbers, custom, lowercase, uppercase, symbols, base64, alphanumeric, ascii''"
  by code_simp

section \<open>Inputs outside the documented types\<close>

text \<open>
  A kind that names a member of \<^verbatim>\<open>Object.prototype\<close> passes construction, and every
  call with a secret then fails inside the engine.
\<close>

lemma inherited_kind:
  "snd (Vigenere (typedOptions ''toString'' None JUndefined))
     = Inr (engineOf (typedOptions ''toString'' None JUndefined))"
  "encode (engineOf (typedOptions ''toString'' None JUndefined)) (Some ''a'') (Some ''b'')
     = Inl EngineTypeError"
  by code_simp+

end
